theory Spec2Isabelle
  imports Complex_Main "HOL-Library.List_Lexorder" "HOL-Library.Char_ord"
    "HOL-Library.Product_Lexorder"
begin

section \<open>Numbers, exceptions and data frames\<close>

text \<open>
  The analysis engine of \<^verbatim>\<open>app.py\<close> (class \<^verbatim>\<open>TimeAnalyzer\<close>) computes with pandas
  series of 64-bit floats. A float is modelled as a real number or one of the three IEEE
  special values; rounding and the sign of zero are not modelled. \<open>NaN\<close> is pandas'
  marker of a missing value.
\<close>

datatype fl = Fin real | PInf | NInf | NaN

fun fl_neg :: "fl \<Rightarrow> fl" where
  "fl_neg (Fin a) = Fin (- a)"
| "fl_neg PInf = NInf"
| "fl_neg NInf = PInf"
| "fl_neg NaN = NaN"

fun fl_add :: "fl \<Rightarrow> fl \<Rightarrow> fl" where
  "fl_add (Fin a) (Fin b) = Fin (a + b)"
| "fl_add NaN _ = NaN"
| "fl_add _ NaN = NaN"
| "fl_add PInf NInf = NaN"
| "fl_add NInf PInf = NaN"
| "fl_add PInf _ = PInf"
| "fl_add _ PInf = PInf"
| "fl_add NInf _ = NInf"
| "fl_add _ NInf = NInf"

definition fl_sub :: "fl \<Rightarrow> fl \<Rightarrow> fl" where
  "fl_sub a b = fl_add a (fl_neg b)"

fun fl_mul :: "fl \<Rightarrow> fl \<Rightarrow> fl" where
  "fl_mul (Fin a) (Fin b) = Fin (a * b)"
| "fl_mul NaN _ = NaN"
| "fl_mul _ NaN = NaN"
| "fl_mul PInf (Fin b) = (if b = 0 then NaN else if 0 < b then PInf else NInf)"
| "fl_mul NInf (Fin b) = (if b = 0 then NaN else if 0 < b then NInf else PInf)"
| "fl_mul (Fin a) PInf = (if a = 0 then NaN else if 0 < a then PInf else NInf)"
| "fl_mul (Fin a) NInf = (if a = 0 then NaN else if 0 < a then NInf else PInf)"
| "fl_mul PInf PInf = PInf"
| "fl_mul PInf NInf = NInf"
| "fl_mul NInf PInf = NInf"
| "fl_mul NInf NInf = PInf"

text \<open>
  Division of numpy floats never raises: \<open>x / 0\<close> is an infinity and \<open>0 / 0\<close> is
  \<open>NaN\<close> (with a warning only).
\<close>

fun fl_div :: "fl \<Rightarrow> fl \<Rightarrow> fl" where
  "fl_div (Fin a) (Fin b) =
     (if b \<noteq> 0 then Fin (a / b) else if a = 0 then NaN else if 0 < a then PInf else NInf)"
| "fl_div NaN _ = NaN"
| "fl_div _ NaN = NaN"
| "fl_div (Fin a) PInf = Fin 0"
| "fl_div (Fin a) NInf = Fin 0"
| "fl_div PInf (Fin b) = (if 0 \<le> b then PInf else NInf)"
| "fl_div NInf (Fin b) = (if 0 \<le> b then NInf else PInf)"
| "fl_div PInf PInf = NaN"
| "fl_div PInf NInf = NaN"
| "fl_div NInf PInf = NaN"
| "fl_div NInf NInf = NaN"

fun fl_abs :: "fl \<Rightarrow> fl" where
  "fl_abs (Fin a) = Fin \<bar>a\<bar>"
| "fl_abs PInf = PInf"
| "fl_abs NInf = PInf"
| "fl_abs NaN = NaN"

text \<open>The comparison \<open>a > b\<close>; every comparison with \<open>NaN\<close> is false.\<close>

fun fl_gt :: "fl \<Rightarrow> fl \<Rightarrow> bool" where
  "fl_gt (Fin a) (Fin b) = (b < a)"
| "fl_gt NaN _ = False"
| "fl_gt _ NaN = False"
| "fl_gt PInf PInf = False"
| "fl_gt PInf _ = True"
| "fl_gt _ PInf = False"
| "fl_gt NInf _ = False"
| "fl_gt _ NInf = True"

text \<open>\<^verbatim>\<open>round(2)\<close> of numpy: scale by 100, round half to even, scale back.\<close>

definition rint :: "real \<Rightarrow> int" where
  "rint x = (if frac x = 1 / 2 then (if even \<lfloor>x\<rfloor> then \<lfloor>x\<rfloor> else \<lfloor>x\<rfloor> + 1) else round x)"

definition round2 :: "real \<Rightarrow> real" where
  "round2 x = real_of_int (rint (x * 100)) / 100"

fun fl_round2 :: "fl \<Rightarrow> fl" where
  "fl_round2 (Fin a) = Fin (round2 a)"
| "fl_round2 x = x"

text \<open>
  Exceptions are values. All of them are subclasses of \<^verbatim>\<open>Exception\<close>, so every
  \<^verbatim>\<open>except Exception\<close> of the source catches them. The texts of the errors raised
  inside pandas are indicative only; nothing proved below depends on them.
\<close>

datatype exn = KeyError string | TypeError string | ValueError string | AttributeError string

fun exn_str :: "exn \<Rightarrow> string" where
  "exn_str (KeyError k) = [CHR 0x27] @ k @ [CHR 0x27]"
| "exn_str (TypeError m) = m"
| "exn_str (ValueError m) = m"
| "exn_str (AttributeError m) = m"

definition ebind :: "exn + 'a \<Rightarrow> ('a \<Rightarrow> exn + 'b) \<Rightarrow> exn + 'b" where
  "ebind m f = (case m of Inl e \<Rightarrow> Inl e | Inr x \<Rightarrow> f x)"

text \<open>
  A timestamp is year, month, day and the nanosecond of the day; the lexicographic order
  of the tuple is the chronological order.
\<close>

type_synonym timestamp = "int \<times> int \<times> int \<times> int"

definition ts_year :: "timestamp \<Rightarrow> int" where
  "ts_year t = fst t"

definition ts_month :: "timestamp \<Rightarrow> int" where
  "ts_month t = fst (snd t)"

definition ts_day :: "timestamp \<Rightarrow> int" where
  "ts_day t = fst (snd (snd t))"

definition ts_quarter :: "timestamp \<Rightarrow> int" where
  "ts_quarter t = (ts_month t - 1) div 3 + 1"

text \<open>Decimal rendering, zero-padded to a width, as \<^verbatim>\<open>strftime\<close> and \<^verbatim>\<open>str\<close> do.\<close>

definition digit_char :: "nat \<Rightarrow> char" where
  "digit_char d = ''0123456789'' ! d"

fun digits_of :: "nat \<Rightarrow> nat \<Rightarrow> string" where
  "digits_of 0 n = []"
| "digits_of (Suc w) n = digits_of w (n div 10) @ [digit_char (n mod 10)]"

fun num_width :: "nat \<Rightarrow> nat \<Rightarrow> nat" where
  "num_width 0 n = 1"
| "num_width (Suc fuel) n = (if n < 10 then 1 else Suc (num_width fuel (n div 10)))"

definition str_nat :: "nat \<Rightarrow> string" where
  "str_nat n = digits_of (num_width n n) n"

definition str_int :: "int \<Rightarrow> string" where
  "str_int i = (if i < 0 then CHR ''-'' # str_nat (nat (- i)) else str_nat (nat i))"

definition pad_int :: "nat \<Rightarrow> int \<Rightarrow> string" where
  "pad_int w i = digits_of (max w (num_width (nat i) (nat i))) (nat i)"

definition strftime_Ym :: "timestamp \<Rightarrow> string" where
  "strftime_Ym t = pad_int 4 (ts_year t) @ ''-'' @ pad_int 2 (ts_month t)"

definition strftime_Ymd :: "timestamp \<Rightarrow> string" where
  "strftime_Ymd t = strftime_Ym t @ ''-'' @ pad_int 2 (ts_day t)"

text \<open>
  The name of the weekday, from the number of days since 1970-01-01 (a Thursday) in the
  proleptic Gregorian calendar.
\<close>

definition days_from_civil :: "int \<Rightarrow> int \<Rightarrow> int \<Rightarrow> int" where
  "days_from_civil y m d =
     (let y' = (if m \<le> 2 then y - 1 else y);
          era = y' div 400;
          yoe = y' - era * 400;
          doy = (153 * (if 2 < m then m - 3 else m + 9) + 2) div 5 + d - 1;
          doe = yoe * 365 + yoe div 4 - yoe div 100 + doy
      in era * 146097 + doe - 719468)"

definition weekday_names :: "string list" where
  "weekday_names =
     [''Monday'', ''Tuesday'', ''Wednesday'', ''Thursday'', ''Friday'', ''Saturday'', ''Sunday'']"

definition day_name :: "timestamp \<Rightarrow> string" where
  "day_name t =
     weekday_names ! nat ((days_from_civil (ts_year t) (ts_month t) (ts_day t) + 3) mod 7)"

text \<open>
  A data frame is an ordered list of named columns. A column read from a CSV file is
  numeric (\<open>NumCol\<close> for float64, \<open>IntCol\<close> for int64) when every cell is a number and
  has dtype object (\<open>ObjCol\<close>, the cells as strings) otherwise. Numeric cells are finite
  numbers; blank cells are not modelled.
\<close>

datatype column =
    NumCol "real list"
  | IntCol "int list"
  | ObjCol "string list"
  | DateCol "timestamp list"

type_synonym dataframe = "(string \<times> column) list"

definition columns :: "dataframe \<Rightarrow> string list" where
  "columns df = map fst df"

text \<open>\<^verbatim>\<open>df[name]\<close> raises \<^verbatim>\<open>KeyError\<close> for a column that is not there.\<close>

definition getitem :: "dataframe \<Rightarrow> string \<Rightarrow> exn + column" where
  "getitem df name = (case map_of df name of None \<Rightarrow> Inl (KeyError name) | Some c \<Rightarrow> Inr c)"

text \<open>\<^verbatim>\<open>df[name] = col\<close> replaces the column of that name or appends a new one.\<close>

definition setitem :: "dataframe \<Rightarrow> string \<Rightarrow> column \<Rightarrow> dataframe" where
  "setitem df name col =
     (if name \<in> set (columns df)
      then map (\<lambda>(n, c). if n = name then (n, col) else (n, c)) df
      else df @ [(name, col)])"

text \<open>
  Arithmetic on a column needs numbers. On a column of dtype object (text in a numeric
  column of the CSV) or of timestamps the arithmetic of pandas raises.
\<close>

fun numeric_values :: "column \<Rightarrow> exn + real list" where
  "numeric_values (NumCol xs) = Inr xs"
| "numeric_values (IntCol xs) = Inr (map real_of_int xs)"
| "numeric_values (ObjCol xs) = Inl (TypeError ''unsupported operand type(s)'')"
| "numeric_values (DateCol xs) = Inl (TypeError ''unsupported operand type(s)'')"

text \<open>
  The grouping columns are the ones \<^verbatim>\<open>prepare_data\<close> derives, so their dtypes are
  fixed: int for \<^verbatim>\<open>year\<close> and \<^verbatim>\<open>quarter\<close>, string for \<^verbatim>\<open>month_year\<close> and
  \<^verbatim>\<open>day_of_week\<close>, timestamp for \<^verbatim>\<open>transaction_date\<close>.
\<close>

fun int_keys :: "column \<Rightarrow> exn + int list" where
  "int_keys (IntCol ks) = Inr ks"
| "int_keys _ = Inl (TypeError ''not an integer column'')"

fun str_keys :: "column \<Rightarrow> exn + string list" where
  "str_keys (ObjCol ks) = Inr ks"
| "str_keys _ = Inl (TypeError ''not a string column'')"

fun date_keys :: "column \<Rightarrow> exn + timestamp list" where
  "date_keys (DateCol ks) = Inr ks"
| "date_keys _ = Inl (TypeError ''not a datetime column'')"

section \<open>The pandas operations the engine uses\<close>

text \<open>
  \<^verbatim>\<open>groupby(key)[col]\<close>: the groups are the distinct keys in ascending order, each with
  the values of its rows in row order.
\<close>

definition group_keys :: "('k::linorder) list \<Rightarrow> 'k list" where
  "group_keys ks = sort (remdups ks)"

definition group_values :: "'k list \<Rightarrow> 'v list \<Rightarrow> 'k \<Rightarrow> 'v list" where
  "group_values ks vs k = map snd (filter (\<lambda>(k', v). k' = k) (zip ks vs))"

definition groupby_sum :: "('k::linorder) list \<Rightarrow> real list \<Rightarrow> ('k \<times> real) list" where
  "groupby_sum ks vs = map (\<lambda>k. (k, sum_list (group_values ks vs k))) (group_keys ks)"

definition groupby_mean :: "('k::linorder) list \<Rightarrow> real list \<Rightarrow> ('k \<times> real) list" where
  "groupby_mean ks vs =
     map (\<lambda>k. (k, sum_list (group_values ks vs k) / real (length (group_values ks vs k))))
       (group_keys ks)"

definition groupby_size :: "('k::linorder) list \<Rightarrow> ('k \<times> nat) list" where
  "groupby_size ks = map (\<lambda>k. (k, length (filter (\<lambda>k'. k' = k) ks))) (group_keys ks)"

text \<open>
  \<^verbatim>\<open>pct_change()\<close>: missing values are filled forward (the default \<^verbatim>\<open>fill_method\<close> of
  pandas 1 and 2), then each value is divided by its predecessor and 1 is subtracted. The
  series shifted by one period has \<open>NaN\<close> in its first position.
\<close>

fun ffill_from :: "fl \<Rightarrow> fl list \<Rightarrow> fl list" where
  "ffill_from l [] = []"
| "ffill_from l (x # xs) = (if x = NaN then l # ffill_from l xs else x # ffill_from x xs)"

definition ffill :: "fl list \<Rightarrow> fl list" where
  "ffill xs = ffill_from NaN xs"

definition shift1 :: "fl list \<Rightarrow> fl list" where
  "shift1 xs = (if xs = [] then [] else NaN # butlast xs)"

definition pct_change :: "fl list \<Rightarrow> fl list" where
  "pct_change xs =
     (let ys = ffill xs in map2 (\<lambda>y p. fl_sub (fl_div y p) (Fin 1)) ys (shift1 ys))"

text \<open>
  \<^verbatim>\<open>rolling(window, min_periods)\<close>: the window at position \<open>i\<close> holds the last
  \<open>window\<close> values up to and including \<open>i\<close>, fewer at the start of the series. A
  statistic is \<open>NaN\<close> where the window holds fewer than \<open>min_periods\<close> values;
  \<open>min_periods\<close> defaults to the window size. The standard deviation is the sample
  standard deviation (one degree of freedom less), \<open>NaN\<close> on a single value.
\<close>

definition rolling_check :: "int \<Rightarrow> nat option \<Rightarrow> exn + (nat \<times> nat)" where
  "rolling_check window min_periods =
     (if window < 0 then Inl (ValueError ''window must be an integer 0 or greater'')
      else case min_periods of
             None \<Rightarrow> Inr (nat window, nat window)
           | Some mp \<Rightarrow>
               if window < int mp then Inl (ValueError ''min_periods must be <= window'')
               else Inr (nat window, mp))"

definition window_at :: "nat \<Rightarrow> 'a list \<Rightarrow> nat \<Rightarrow> 'a list" where
  "window_at w xs i = drop (Suc i - w) (take (Suc i) xs)"

definition mean_of :: "real list \<Rightarrow> fl" where
  "mean_of xs = (if xs = [] then NaN else Fin (sum_list xs / real (length xs)))"

definition sample_var :: "real list \<Rightarrow> real" where
  "sample_var xs =
     (let m = sum_list xs / real (length xs)
      in sum_list (map (\<lambda>x. (x - m)\<^sup>2) xs) / real (length xs - 1))"

definition std_of :: "real list \<Rightarrow> fl" where
  "std_of xs = (if length xs \<le> 1 then NaN else Fin (sqrt (sample_var xs)))"

definition rolling_apply :: "nat \<Rightarrow> nat \<Rightarrow> (real list \<Rightarrow> fl) \<Rightarrow> real list \<Rightarrow> fl list" where
  "rolling_apply w mp f xs =
     map (\<lambda>i. let win = window_at w xs i in if mp \<le> length win then f win else NaN)
       [0..<length xs]"

definition rolling_mean :: "int \<Rightarrow> nat option \<Rightarrow> real list \<Rightarrow> exn + fl list" where
  "rolling_mean window min_periods xs =
     ebind (rolling_check window min_periods) (\<lambda>(w, mp). Inr (rolling_apply w mp mean_of xs))"

definition rolling_std :: "int \<Rightarrow> nat option \<Rightarrow> real list \<Rightarrow> exn + fl list" where
  "rolling_std window min_periods xs =
     ebind (rolling_check window min_periods) (\<lambda>(w, mp). Inr (rolling_apply w mp std_of xs))"

section \<open>Configuration, analyzer objects and the store\<close>

text \<open>
  \<^verbatim>\<open>AnalysisSettings\<close> of \<^verbatim>\<open>config/settings.py\<close>; the engine reads no other part of
  the configuration. The analyzer is given a configuration object or \<^verbatim>\<open>None\<close>.
\<close>

record analysis_settings =
  min_months_for_seasonality :: int
  moving_average_windows :: "int list"
  top_peak_months :: int
  anomaly_detection_window :: int
  anomaly_std_threshold :: real
  trend_significance_threshold :: real
  correlation_strength_threshold :: real

definition default_settings :: analysis_settings where
  "default_settings =
     \<lparr>min_months_for_seasonality = 12, moving_average_windows = [3, 6], top_peak_months = 5,
      anomaly_detection_window = 7, anomaly_std_threshold = 2,
      trend_significance_threshold = 5 / 100, correlation_strength_threshold = 7 / 10\<rparr>"

text \<open>
  Data frames are mutable objects, so they live in a store and are passed by reference.
  \<^verbatim>\<open>self.df = df\<close> copies the reference, not the frame.
\<close>

type_synonym store = "nat \<Rightarrow> dataframe"

record analyzer =
  df :: nat
  config :: "analysis_settings option"

text \<open>
  \<^verbatim>\<open>prepare_data\<close>: five assignments to columns of \<^verbatim>\<open>self.df\<close>, each derived through
  the \<^verbatim>\<open>.dt\<close> accessor of the column \<^verbatim>\<open>transaction_date\<close>. An exception stops the
  sequence and keeps the assignments already made.
\<close>

definition dt_column :: "dataframe \<Rightarrow> (timestamp list \<Rightarrow> column) \<Rightarrow> exn + column" where
  "dt_column d f =
     ebind (getitem d ''transaction_date'')
       (\<lambda>c. case c of
              DateCol ts \<Rightarrow> Inr (f ts)
            | _ \<Rightarrow> Inl (AttributeError ''Can only use .dt accessor with datetimelike values''))"

definition dt_assignments :: "(string \<times> (timestamp list \<Rightarrow> column)) list" where
  "dt_assignments =
     [(''year'', \<lambda>ts. IntCol (map ts_year ts)),
      (''month'', \<lambda>ts. IntCol (map ts_month ts)),
      (''quarter'', \<lambda>ts. IntCol (map ts_quarter ts)),
      (''month_year'', \<lambda>ts. ObjCol (map strftime_Ym ts)),
      (''day_of_week'', \<lambda>ts. ObjCol (map day_name ts))]"

fun run_assignments ::
  "(string \<times> (timestamp list \<Rightarrow> column)) list \<Rightarrow> dataframe \<Rightarrow> dataframe \<times> exn option" where
  "run_assignments [] d = (d, None)"
| "run_assignments ((name, f) # rest) d =
     (case dt_column d f of
        Inl e \<Rightarrow> (d, Some e)
      | Inr c \<Rightarrow> run_assignments rest (setitem d name c))"

definition prepare_data :: "store \<Rightarrow> nat \<Rightarrow> store \<times> exn option" where
  "prepare_data s r = (case run_assignments dt_assignments (s r) of (d, e) \<Rightarrow> (s(r := d), e))"

text \<open>
  \<^verbatim>\<open>TimeAnalyzer.__init__\<close>. The parser \<^verbatim>\<open>pd.to_datetime\<close> is a parameter: it maps
  the column to timestamps or raises.
\<close>

definition init ::
  "(column \<Rightarrow> exn + timestamp list) \<Rightarrow> store \<Rightarrow> nat \<Rightarrow> analysis_settings option
     \<Rightarrow> store \<times> (exn + analyzer)" where
  "init to_datetime s r cfg =
     (case ebind (getitem (s r) ''transaction_date'') to_datetime of
        Inl e \<Rightarrow> (s, Inl e)
      | Inr ts \<Rightarrow>
          (case prepare_data (s(r := setitem (s r) ''transaction_date'' (DateCol ts))) r of
             (s', None) \<Rightarrow> (s', Inr \<lparr>df = r, config = cfg\<rparr>)
           | (s', Some e) \<Rightarrow> (s', Inl e)))"

text \<open>
  The parser on the dates of the documented CSV format, \<^verbatim>\<open>YYYY-MM-DD\<close>, for concrete
  examples. Other texts are outside this instance.
\<close>

definition digit_val :: "char \<Rightarrow> int option" where
  "digit_val c =
     (let n = (of_char c :: nat) in if 48 \<le> n \<and> n \<le> 57 then Some (int n - 48) else None)"

fun number_val :: "int \<Rightarrow> string \<Rightarrow> int option" where
  "number_val acc [] = Some acc"
| "number_val acc (c # cs) =
     (case digit_val c of None \<Rightarrow> None | Some v \<Rightarrow> number_val (acc * 10 + v) cs)"

definition parse_iso_date :: "string \<Rightarrow> exn + timestamp" where
  "parse_iso_date s =
     (if length s = 10 \<and> s ! 4 = CHR ''-'' \<and> s ! 7 = CHR ''-'' then
        (case (number_val 0 (take 4 s), number_val 0 (take 2 (drop 5 s)),
               number_val 0 (drop 8 s)) of
           (Some y, Some m, Some d) \<Rightarrow>
             if 1 \<le> m \<and> m \<le> 12 \<and> 1 \<le> d \<and>
                days_from_civil y m d < days_from_civil (if m = 12 then y + 1 else y)
                  (if m = 12 then 1 else m + 1) 1
             then Inr (y, m, d, 0)
             else Inl (ValueError ''day is out of range for month'')
         | _ \<Rightarrow> Inl (ValueError ''Unknown datetime string format''))
      else Inl (ValueError ''Unknown datetime string format''))"

fun parse_all :: "string list \<Rightarrow> exn + timestamp list" where
  "parse_all [] = Inr []"
| "parse_all (s # ss) =
     ebind (parse_iso_date s) (\<lambda>t. ebind (parse_all ss) (\<lambda>ts. Inr (t # ts)))"

fun to_datetime_iso :: "column \<Rightarrow> exn + timestamp list" where
  "to_datetime_iso (ObjCol ss) = parse_all ss"
| "to_datetime_iso (DateCol ts) = Inr ts"
| "to_datetime_iso _ = Inl (ValueError ''Unknown datetime string format'')"

section \<open>The analysis engine\<close>

subsection \<open>Aggregations of spend\<close>

definition spend_values :: "dataframe \<Rightarrow> exn + real list" where
  "spend_values d = ebind (getitem d ''Total Spend ($)'') numeric_values"

definition quantity_values :: "dataframe \<Rightarrow> exn + real list" where
  "quantity_values d = ebind (getitem d ''Quantity Purchased'') numeric_values"


definition yearly_spend :: "dataframe \<Rightarrow> exn + (int \<times> real) list" where
  "yearly_spend d =
     ebind (ebind (getitem d ''year'') int_keys) (\<lambda>ks.
     ebind (spend_values d) (\<lambda>vs. Inr (groupby_sum ks vs)))"

definition quarterly_spend :: "dataframe \<Rightarrow> exn + ((int \<times> int) \<times> real) list" where
  "quarterly_spend d =
     ebind (ebind (getitem d ''year'') int_keys) (\<lambda>ys.
     ebind (ebind (getitem d ''quarter'') int_keys) (\<lambda>qs.
     ebind (spend_values d) (\<lambda>vs. Inr (groupby_sum (zip ys qs) vs))))"

definition month_keys :: "dataframe \<Rightarrow> exn + string list" where
  "month_keys d = ebind (getitem d ''month_year'') str_keys"

definition monthly_spend :: "dataframe \<Rightarrow> exn + (string \<times> real) list" where
  "monthly_spend d =
     ebind (month_keys d) (\<lambda>ks.
     ebind (spend_values d) (\<lambda>vs. Inr (groupby_sum ks vs)))"

definition daily_spend :: "dataframe \<Rightarrow> exn + (timestamp \<times> real) list" where
  "daily_spend d =
     ebind (ebind (getitem d ''transaction_date'') date_keys) (\<lambda>ks.
     ebind (spend_values d) (\<lambda>vs. Inr (groupby_sum ks vs)))"

subsection \<open>Growth, moving averages, peak months, days of the week\<close>

text \<open>\<^verbatim>\<open>series.pct_change() * 100\<close>, on the index of the series.\<close>

definition growth :: "('k \<times> real) list \<Rightarrow> ('k \<times> fl) list" where
  "growth s =
     zip (map fst s) (map (\<lambda>g. fl_mul g (Fin 100)) (pct_change (map (\<lambda>(k, v). Fin v) s)))"

text \<open>\<^verbatim>\<open>series.rolling(window=w).mean()\<close>.\<close>

definition moving_average :: "int \<Rightarrow> ('k \<times> real) list \<Rightarrow> exn + ('k \<times> fl) list" where
  "moving_average w s =
     ebind (rolling_mean w None (map snd s)) (\<lambda>ms. Inr (zip (map fst s) ms))"

text \<open>\<^verbatim>\<open>series.nlargest(n)\<close>: descending by value, equal values in order of appearance.\<close>

definition nlargest :: "nat \<Rightarrow> ('k \<times> real) list \<Rightarrow> ('k \<times> real) list" where
  "nlargest n s = take n (sort_key (\<lambda>(k, v). - v) s)"

definition dow_stats :: "dataframe \<Rightarrow> exn + (string \<times> (string \<times> fl) list) list" where
  "dow_stats d =
     ebind (ebind (getitem d ''day_of_week'') str_keys) (\<lambda>ks.
     ebind (spend_values d) (\<lambda>vs.
     ebind (quantity_values d) (\<lambda>qs.
       Inr [(''Total Spend'', map (\<lambda>(k, v). (k, Fin (round2 v))) (groupby_sum ks vs)),
            (''Average Spend'', map (\<lambda>(k, v). (k, Fin (round2 v))) (groupby_mean ks vs)),
            (''Transaction Count'',
               map (\<lambda>(k, n). (k, Fin (real n))) (groupby_size ks)),
            (''Total Quantity'', map (\<lambda>(k, v). (k, Fin (round2 v))) (groupby_sum ks qs))])))"

record basic_analysis =
  yearly_growth :: "(string \<times> fl) list"
  quarterly_growth :: "(string \<times> fl) list"
  monthly_growth :: "(string \<times> fl) list"
  moving_average_3m :: "(string \<times> fl) list"
  moving_average_6m :: "(string \<times> fl) list"
  peak_months :: "(string \<times> real) list"
  day_of_week_stats :: "(string \<times> (string \<times> fl) list) list"
  raw_monthly_spend :: "(string \<times> fl) list"

text \<open>
  The part of \<^verbatim>\<open>enhanced_time_analysis\<close> that is computed in the method itself, before
  the five component methods are called, with the conversions of the returned dictionary.
\<close>

definition basic_analysis :: "dataframe \<Rightarrow> exn + basic_analysis" where
  "basic_analysis d =
     ebind (yearly_spend d) (\<lambda>ys.
     ebind (quarterly_spend d) (\<lambda>qs.
     ebind (monthly_spend d) (\<lambda>ms.
     ebind (moving_average 3 ms) (\<lambda>ma3.
     ebind (moving_average 6 ms) (\<lambda>ma6.
     ebind (dow_stats d) (\<lambda>dow.
       Inr \<lparr>yearly_growth = map (\<lambda>(k, v). (str_int k, v)) (growth ys),
            quarterly_growth =
              map (\<lambda>((y, q), v). (str_int y @ ''-Q'' @ str_int q, v)) (growth qs),
            monthly_growth = growth ms,
            moving_average_3m = ma3,
            moving_average_6m = ma6,
            peak_months = nlargest 5 ms,
            day_of_week_stats = dow,
            raw_monthly_spend = map (\<lambda>(k, v). (k, Fin v)) ms\<rparr>))))))"

subsection \<open>Trend metrics\<close>

text \<open>\<^verbatim>\<open>series.mean()\<close> skips missing values and is \<open>NaN\<close> when none is left.\<close>

definition nanmean :: "fl list \<Rightarrow> fl" where
  "nanmean xs =
     (let vs = filter (\<lambda>x. x \<noteq> NaN) xs
      in if vs = [] then NaN else fl_div (foldl fl_add (Fin 0) vs) (Fin (real (length vs))))"

record trend_metrics =
  direction :: string
  strength :: fl
  is_accelerating :: bool
  acceleration_rate :: fl

definition trend_body :: "dataframe \<Rightarrow> exn + trend_metrics" where
  "trend_body d =
     ebind (monthly_spend d) (\<lambda>ms.
       let trend_changes = pct_change (map (\<lambda>(k, v). Fin v) ms);
           acceleration = pct_change trend_changes
       in Inr \<lparr>direction =
                 (if fl_gt (nanmean trend_changes) (Fin 0) then ''Upward'' else ''Downward''),
               strength = fl_mul (fl_abs (nanmean trend_changes)) (Fin 100),
               is_accelerating = fl_gt (nanmean acceleration) (Fin 0),
               acceleration_rate = fl_mul (nanmean acceleration) (Fin 100)\<rparr>)"

definition trend_fallback :: trend_metrics where
  "trend_fallback =
     \<lparr>direction = ''Unknown'', strength = Fin 0, is_accelerating = False,
      acceleration_rate = Fin 0\<rparr>"

definition calculate_trend_metrics :: "dataframe \<Rightarrow> trend_metrics" where
  "calculate_trend_metrics d = (case trend_body d of Inr r \<Rightarrow> r | Inl e \<Rightarrow> trend_fallback)"

subsection \<open>Anomaly detection\<close>

text \<open>
  The boolean mask \<^verbatim>\<open>abs(daily_spend - rolling_mean) > (threshold * rolling_std)\<close>, both
  rolling statistics with \<^verbatim>\<open>min_periods=1\<close>.
\<close>

definition anomaly_mask :: "int \<Rightarrow> real \<Rightarrow> real list \<Rightarrow> exn + bool list" where
  "anomaly_mask window threshold xs =
     ebind (rolling_mean window (Some 1) xs) (\<lambda>means.
     ebind (rolling_std window (Some 1) xs) (\<lambda>stds.
       Inr (map (\<lambda>(v, m, s). fl_gt (fl_abs (fl_sub (Fin v) m)) (fl_mul (Fin threshold) s))
              (zip xs (zip means stds)))))"

record anomaly_report =
  anomalies :: "(timestamp \<times> fl) list"
  anomaly_dates :: "string list"
  total_anomalies :: nat

text \<open>The threshold and the window, from the configuration or the defaults.\<close>

definition threshold_of :: "analysis_settings option \<Rightarrow> real" where
  "threshold_of cfg = (case cfg of Some c \<Rightarrow> anomaly_std_threshold c | None \<Rightarrow> 2)"

definition window_of :: "analysis_settings option \<Rightarrow> int" where
  "window_of cfg = (case cfg of Some c \<Rightarrow> anomaly_detection_window c | None \<Rightarrow> 7)"

definition anomaly_body :: "analysis_settings option \<Rightarrow> dataframe \<Rightarrow> exn + anomaly_report" where
  "anomaly_body cfg d =
     ebind (daily_spend d) (\<lambda>ds.
       let threshold = threshold_of cfg;
           window = window_of cfg
       in ebind (anomaly_mask window threshold (map snd ds)) (\<lambda>mask.
            let found = map fst (filter snd (zip ds mask))
            in Inr \<lparr>anomalies = map (\<lambda>(k, v). (k, Fin v)) found,
                    anomaly_dates = map (\<lambda>(k, v). strftime_Ymd k) found,
                    total_anomalies = length found\<rparr>))"

definition anomaly_fallback :: anomaly_report where
  "anomaly_fallback = \<lparr>anomalies = [], anomaly_dates = [], total_anomalies = 0\<rparr>"

definition detect_anomalies :: "analysis_settings option \<Rightarrow> dataframe \<Rightarrow> anomaly_report" where
  "detect_anomalies cfg d = (case anomaly_body cfg d of Inr r \<Rightarrow> r | Inl e \<Rightarrow> anomaly_fallback)"

subsection \<open>Purchase patterns\<close>

record purchase_patterns =
  monthly_aov :: "(string \<times> fl) list"
  purchase_frequency :: "(string \<times> nat) list"
  basket_size :: "(string \<times> fl) list"

definition purchase_body :: "dataframe \<Rightarrow> exn + purchase_patterns" where
  "purchase_body d =
     ebind (monthly_spend d) (\<lambda>ms.
     ebind (month_keys d) (\<lambda>ks.
     ebind (quantity_values d) (\<lambda>qs.
       Inr \<lparr>monthly_aov =
              map (\<lambda>((k, v), (k', n)). (k, fl_round2 (fl_div (Fin v) (Fin (real n)))))
                (zip ms (groupby_size ks)),
            purchase_frequency = groupby_size ks,
            basket_size = map (\<lambda>(k, v). (k, Fin (round2 v))) (groupby_mean ks qs)\<rparr>)))"

definition purchase_fallback :: purchase_patterns where
  "purchase_fallback = \<lparr>monthly_aov = [], purchase_frequency = [], basket_size = []\<rparr>"

definition analyze_purchase_patterns :: "dataframe \<Rightarrow> purchase_patterns" where
  "analyze_purchase_patterns d =
     (case purchase_body d of Inr r \<Rightarrow> r | Inl e \<Rightarrow> purchase_fallback)"

subsection \<open>Correlations\<close>

text \<open>
  \<^verbatim>\<open>Series.corr\<close> is the Pearson coefficient as \<^verbatim>\<open>numpy.corrcoef\<close> computes it: the
  covariance divided by both standard deviations, then clipped to the interval from -1
  to 1. Fewer than two rows, or a column without variance, give \<open>0 / 0\<close>, which is
  \<open>NaN\<close>; nothing is raised.
\<close>

definition covariance :: "(real \<times> real) list \<Rightarrow> real" where
  "covariance ps =
     (let n = real (length ps);
          mx = sum_list (map fst ps) / n;
          my = sum_list (map snd ps) / n
      in sum_list (map (\<lambda>(x, y). (x - mx) * (y - my)) ps) / (n - 1))"

definition clip :: "real \<Rightarrow> real \<Rightarrow> real \<Rightarrow> real" where
  "clip lo hi x = min hi (max lo x)"

definition pearson :: "real list \<Rightarrow> real list \<Rightarrow> fl" where
  "pearson xs ys =
     (let ps = zip xs ys;
          cxx = covariance (map (\<lambda>(x, y). (x, x)) ps);
          cyy = covariance (map (\<lambda>(x, y). (y, y)) ps);
          cxy = covariance ps
      in if length ps \<le> 1 \<or> cxx = 0 \<or> cyy = 0 then NaN
         else Fin (clip (- 1) 1 (cxy / sqrt cxx / sqrt cyy)))"

definition corr :: "column \<Rightarrow> column \<Rightarrow> exn + fl" where
  "corr a b =
     ebind (numeric_values a) (\<lambda>xs. ebind (numeric_values b) (\<lambda>ys. Inr (pearson xs ys)))"

record correlations =
  spend_quantity :: fl
  spend_leadtime :: fl
  quantity_leadtime :: fl

definition correlation_body :: "dataframe \<Rightarrow> exn + correlations" where
  "correlation_body d =
     ebind (getitem d ''Total Spend ($)'') (\<lambda>s1.
     ebind (getitem d ''Quantity Purchased'') (\<lambda>q1.
     ebind (corr s1 q1) (\<lambda>sq.
     ebind (getitem d ''Total Spend ($)'') (\<lambda>s2.
     ebind (getitem d ''Lead Time (Days)'') (\<lambda>l2.
     ebind (corr s2 l2) (\<lambda>sl.
     ebind (getitem d ''Quantity Purchased'') (\<lambda>q3.
     ebind (getitem d ''Lead Time (Days)'') (\<lambda>l3.
     ebind (corr q3 l3) (\<lambda>ql.
       Inr \<lparr>spend_quantity = sq, spend_leadtime = sl, quantity_leadtime = ql\<rparr>)))))))))"

definition correlation_fallback :: correlations where
  "correlation_fallback =
     \<lparr>spend_quantity = Fin 0, spend_leadtime = Fin 0, quantity_leadtime = Fin 0\<rparr>"

definition analyze_correlations :: "dataframe \<Rightarrow> correlations" where
  "analyze_correlations d =
     (case correlation_body d of Inr r \<Rightarrow> r | Inl e \<Rightarrow> correlation_fallback)"

subsection \<open>Seasonality\<close>

text \<open>
  \<^verbatim>\<open>seasonal_decompose\<close> of statsmodels is a parameter of the model: given the monthly
  series and the period it returns the three components, aligned with the series, or
  raises. The trend and the residual are \<open>NaN\<close> at both ends of the series.
\<close>

record decomposition =
  seasonal :: "real list"
  trend :: "fl list"
  resid :: "fl list"

type_synonym decomposer = "(string \<times> real) list \<Rightarrow> nat \<Rightarrow> exn + decomposition"

text \<open>\<^verbatim>\<open>series.var()\<close>: the sample variance of the values that are not missing.\<close>

definition var :: "fl list \<Rightarrow> fl" where
  "var xs =
     (let vs = concat (map (\<lambda>x. case x of Fin v \<Rightarrow> [v] | _ \<Rightarrow> []) xs)
      in if PInf \<in> set xs \<or> NInf \<in> set xs \<or> length vs \<le> 1 then NaN
         else Fin (sample_var vs))"

text \<open>
  The strength of the seasonal component:
  \<^verbatim>\<open>total_variance = float(residual.var() + seasonal.var())\<close> and
  \<^verbatim>\<open>float((seasonal.var() / total_variance * 100).round(2))\<close>.
\<close>

definition seasonal_strength_of :: "fl \<Rightarrow> fl \<Rightarrow> fl" where
  "seasonal_strength_of seasonal_var residual_var =
     (let total_variance = fl_add residual_var seasonal_var
      in fl_round2 (fl_mul (fl_div seasonal_var total_variance) (Fin 100)))"

text \<open>
  \<^verbatim>\<open>idxmax\<close> and \<^verbatim>\<open>idxmin\<close>: the first label with the largest (smallest) value; an
  empty series raises.
\<close>

fun idxmax :: "('k \<times> real) list \<Rightarrow> exn + 'k" where
  "idxmax [] = Inl (ValueError ''attempt to get argmax of an empty sequence'')"
| "idxmax ((k, v) # s) =
     (if list_all (\<lambda>(k', v'). v' \<le> v) s then Inr k else idxmax s)"

fun idxmin :: "('k \<times> real) list \<Rightarrow> exn + 'k" where
  "idxmin [] = Inl (ValueError ''attempt to get argmin of an empty sequence'')"
| "idxmin ((k, v) # s) =
     (if list_all (\<lambda>(k', v'). v \<le> v') s then Inr k else idxmin s)"

datatype seasonality_metrics =
    Seasonality
      (seasonal_strength: fl)
      (peak_month: string)
      (trough_month: string)
      (seasonal_factors: "(string \<times> fl) list")
      (components: "(string \<times> (string \<times> fl) list) list")
  | NoSeasonality (message: string)

fun has_seasonality :: "seasonality_metrics \<Rightarrow> bool" where
  "has_seasonality (Seasonality st p t f c) = True"
| "has_seasonality (NoSeasonality m) = False"

text \<open>
  The body of \<^verbatim>\<open>analyze_seasonality\<close>. The length of the monthly series is the number of
  distinct month keys. Summing a text column concatenates its strings and raises nothing,
  so for such a column the first arithmetic is the decomposition, after the test of the
  length; summing timestamps raises at once.
\<close>

fun summable :: "column \<Rightarrow> exn + column" where
  "summable (DateCol ts) = Inl (TypeError ''datetime64 type does not support sum operations'')"
| "summable c = Inr c"

definition min_months_of :: "analysis_settings option \<Rightarrow> int" where
  "min_months_of cfg = (case cfg of Some c \<Rightarrow> min_months_for_seasonality c | None \<Rightarrow> 12)"

definition seasonality_body ::
  "decomposer \<Rightarrow> analysis_settings option \<Rightarrow> dataframe \<Rightarrow> exn + seasonality_metrics" where
  "seasonality_body decompose cfg d =
     ebind (month_keys d) (\<lambda>ks.
     ebind (ebind (getitem d ''Total Spend ($)'') summable) (\<lambda>col.
       let min_months = min_months_of cfg
       in if min_months \<le> int (length (group_keys ks)) then
            ebind (numeric_values col) (\<lambda>vs.
              let monthly = groupby_sum ks vs in
            ebind (decompose monthly 12) (\<lambda>dc.
              let idx = map fst monthly;
                  st = seasonal_strength_of (var (map Fin (seasonal dc))) (var (resid dc));
                  factors = groupby_mean (map (\<lambda>k. take 2 (drop 5 k)) idx) (seasonal dc)
              in
            ebind (idxmax factors) (\<lambda>peak.
            ebind (idxmin factors) (\<lambda>trough.
              Inr (Seasonality st peak trough (map (\<lambda>(k, v). (k, Fin v)) factors)
                     [(''seasonal'', zip idx (map Fin (seasonal dc))),
                      (''trend'', zip idx (trend dc)),
                      (''residual'', zip idx (resid dc))])))))
          else
            Inr (NoSeasonality
              ''Insufficient data for seasonal analysis (need at least {min_months} months)'')))"

definition analyze_seasonality ::
  "decomposer \<Rightarrow> analysis_settings option \<Rightarrow> dataframe \<Rightarrow> seasonality_metrics" where
  "analyze_seasonality decompose cfg d =
     (case seasonality_body decompose cfg d of
        Inr r \<Rightarrow> r
      | Inl e \<Rightarrow> NoSeasonality (''Error in seasonal analysis: '' @ exn_str e))"

subsection \<open>The whole analysis\<close>

text \<open>
  The dictionary returned by \<^verbatim>\<open>enhanced_time_analysis\<close>. The entry \<^verbatim>\<open>anomalies\<close> of
  the source is the field \<open>anomaly_results\<close>, the name \<open>anomalies\<close> being taken by the
  entry of the anomaly report.
\<close>

record analysis_result = basic_analysis +
  trend_analysis :: trend_metrics
  anomaly_results :: anomaly_report
  purchase_patterns :: purchase_patterns
  correlations :: correlations
  seasonality_metrics :: seasonality_metrics

text \<open>
  \<^verbatim>\<open>enhanced_time_analysis\<close>: any exception in the body of the method is caught by its
  own handler, which reports the error and returns \<^verbatim>\<open>None\<close>. The five component
  methods catch their own exceptions and so always return.
\<close>

definition enhanced_time_analysis :: "decomposer \<Rightarrow> store \<Rightarrow> analyzer \<Rightarrow> analysis_result option" where
  "enhanced_time_analysis decompose s a =
     (let d = s (df a) in
      case basic_analysis d of
        Inl e \<Rightarrow> None
      | Inr b \<Rightarrow>
          Some (basic_analysis.extend b
            (analysis_result.fields
               (calculate_trend_metrics d)
               (detect_anomalies (config a) d)
               (analyze_purchase_patterns d)
               (analyze_correlations d)
               (analyze_seasonality decompose (config a) d))))"

subsection \<open>The entry point\<close>

definition required_columns :: "string list" where
  "required_columns = [''transaction_date'', ''Total Spend ($)'', ''Quantity Purchased'']"

text \<open>The text passed to \<^verbatim>\<open>st.error\<close> when a required column is missing.\<close>

definition missing_columns_message :: string where
  "missing_columns_message =
     [CHR 0x0A] @
     ''                    Missing required columns. Please ensure your CSV contains:'' @
     [CHR 0x0A] @ ''                    - transaction_date'' @
     [CHR 0x0A] @ ''                    - Total Spend ($)'' @
     [CHR 0x0A] @ ''                    - Quantity Purchased'' @
     [CHR 0x0A] @ ''                ''"

text \<open>
  What \<^verbatim>\<open>main\<close> does with an uploaded file, up to the point where the results are
  handed to the presentation code: the frame read from the CSV is checked for the
  required columns, the analyzer is built on it with the configuration, and the analysis
  is run.
\<close>

datatype outcome =
    MissingColumns string
  | ProcessingError string
  | NoResults
  | Analysed analysis_result

definition main_upload ::
  "(column \<Rightarrow> exn + timestamp list) \<Rightarrow> decomposer \<Rightarrow> analysis_settings \<Rightarrow> dataframe \<Rightarrow> outcome" where
  "main_upload to_datetime decompose cfg d =
     (if \<not> list_all (\<lambda>col. col \<in> set (columns d)) required_columns
      then MissingColumns missing_columns_message
      else case init to_datetime (\<lambda>r. d) 0 (Some cfg) of
             (s, Inl e) \<Rightarrow> ProcessingError (''Error processing file: '' @ exn_str e)
           | (s, Inr a) \<Rightarrow>
               (case enhanced_time_analysis decompose s a of
                  None \<Rightarrow> NoResults
                | Some r \<Rightarrow> Analysed r))"

text \<open>\<^verbatim>\<open>pat in text\<close> on strings.\<close>

fun contains :: "string \<Rightarrow> string \<Rightarrow> bool" where
  "contains [] pat = (pat = [])"
| "contains (c # cs) pat = (take (length pat) (c # cs) = pat \<or> contains cs pat)"

section \<open>The anomaly rule as the specification words it\<close>

text \<open>
  A day is anomalous when its value differs from the mean of the trailing window by more
  than the threshold times the standard deviation of that window. The window at day \<open>i\<close>
  holds the last \<open>w\<close> days up to and including \<open>i\<close>, or all days so far when there
  are fewer. A window of a single day has no standard deviation and flags nothing.
\<close>

definition spec_anomalous :: "nat \<Rightarrow> real \<Rightarrow> real list \<Rightarrow> nat \<Rightarrow> bool" where
  "spec_anomalous w t xs i =
     (let win = map ((!) xs) [Suc i - w..<Suc i]
      in 2 \<le> length win \<and>
         t * sqrt (sample_var win) < \<bar>xs ! i - sum_list win / real (length win)\<bar>)"

section \<open>Example data\<close>


definition frame_sample :: dataframe where
  "frame_sample =
     [(''transaction_date'', DateCol [(2023, 1, 1, 0), (2023, 2, 5, 0)]),
      (''Total Spend ($)'', NumCol [1000.5, 750.25]),
      (''Quantity Purchased'', IntCol [5, 3]),
      (''year'', IntCol [2023, 2023]),
      (''month'', IntCol [1, 2]),
      (''quarter'', IntCol [1, 1]),
      (''month_year'', ObjCol [''2023-01'', ''2023-02'']),
      (''day_of_week'', ObjCol [''Sunday'', ''Sunday''])]"

text \<open>A week of daily spend with a spike on the last day, prepared.\<close>

definition frame_week :: dataframe where
  "frame_week =
     [(''transaction_date'',
         DateCol [(2023, 1, 1, 0), (2023, 1, 2, 0), (2023, 1, 3, 0), (2023, 1, 4, 0),
                  (2023, 1, 5, 0), (2023, 1, 6, 0), (2023, 1, 7, 0)]),
      (''Total Spend ($)'', IntCol [10, 10, 10, 10, 10, 10, 100]),
      (''Quantity Purchased'', IntCol [1, 1, 1, 1, 1, 1, 1]),
      (''year'', IntCol [2023, 2023, 2023, 2023, 2023, 2023, 2023]),
      (''month'', IntCol [1, 1, 1, 1, 1, 1, 1]),
      (''quarter'', IntCol [1, 1, 1, 1, 1, 1, 1]),
      (''month_year'',
         ObjCol [''2023-01'', ''2023-01'', ''2023-01'', ''2023-01'', ''2023-01'', ''2023-01'',
                 ''2023-01'']),
      (''day_of_week'',
         ObjCol [''Sunday'', ''Monday'', ''Tuesday'', ''Wednesday'', ''Thursday'', ''Friday'',
                 ''Saturday''])]"




definition csv_no_quantity :: dataframe where
  "csv_no_quantity =
     [(''transaction_date'', ObjCol [''2023-01-01'']),
      (''Total Spend ($)'', NumCol [1000.5])]"

text \<open>
  Two decomposers: one that refuses every series, as statsmodels does for fewer than two
  full cycles, and one that returns a flat seasonal component and a zero residual. For
  the second, a configuration that asks for two months only.
\<close>

definition refusing_decompose :: decomposer where
  "refusing_decompose s p = Inl (ValueError ''x must have 2 complete cycles'')"

definition settings_two_months :: analysis_settings where
  "settings_two_months = default_settings\<lparr>min_months_for_seasonality := 2\<rparr>"

definition flat_decompose :: decomposer where
  "flat_decompose s p =
     Inr \<lparr>seasonal = map (\<lambda>(k, v). 0) s,
          trend = map (\<lambda>(k, v). Fin v) s,
          resid = map (\<lambda>(k, v). Fin 0) s\<rparr>"

section \<open>Auxiliary facts\<close>

lemma ebind_Inl [simp]: "ebind (Inl e) f = Inl e"
  by (simp add: ebind_def)

lemma ebind_Inr [simp]: "ebind (Inr x) f = f x"
  by (simp add: ebind_def)

lemma ebind_eq_Inr: "ebind m f = Inr y \<longleftrightarrow> (\<exists>x. m = Inr x \<and> f x = Inr y)"
  by (cases m) simp_all

lemma fl_div_NaN [simp]: "fl_div y NaN = NaN"
  by (cases y) simp_all

lemma fl_sub_NaN [simp]: "fl_sub NaN y = NaN"
  by (simp add: fl_sub_def)

lemma fl_mul_NaN_right [simp]: "fl_mul y NaN = NaN"
  by (cases y) simp_all

lemma fl_gt_NaN_right [simp]: "fl_gt y NaN = False"
  by (cases y) simp_all

lemma ffill_from_length [simp]: "length (ffill_from l xs) = length xs"
  by (induction xs arbitrary: l) simp_all

lemma pct_change_Cons: "\<exists>rest. pct_change (x # xs) = NaN # rest \<and> length rest = length xs"
proof -
  obtain y ys where f: "ffill (x # xs) = y # ys" and l: "length ys = length xs"
    by (cases "x = NaN") (auto simp: ffill_def)
  have "length (butlast ys) = length xs - 1" using l by simp
  then show ?thesis
    by (cases ys) (simp_all add: pct_change_def f shift1_def l [symmetric])
qed

lemma growth_Cons:
  "\<exists>rest. growth ((k, v) # s) = (k, NaN) # rest \<and> length rest = length s"
proof -
  obtain rest where r: "pct_change (Fin v # map (\<lambda>(k, v). Fin v) s) = NaN # rest"
    and l: "length rest = length s"
    using pct_change_Cons [of "Fin v" "map (\<lambda>(k, v). Fin v) s"] by auto
  show ?thesis by (simp add: growth_def r l)
qed

lemma rolling_check_Some1:
  "rolling_check w (Some (Suc 0)) = (if 1 \<le> w then Inr (nat w, 1) else Inl (if w < 0 then ValueError ''window must be an integer 0 or greater'' else ValueError ''min_periods must be <= window''))"
  by (auto simp: rolling_check_def)

lemma length_window_at: "i < length xs \<Longrightarrow> length (window_at w xs i) = min (Suc i) w"
  by (auto simp: window_at_def)

lemma drop_take_upt: "b \<le> length xs \<Longrightarrow> drop a (take b xs) = map ((!) xs) [a..<b]"
  by (rule nth_equalityI) auto

lemma window_at_nth_conv:
  "i < length xs \<Longrightarrow> window_at w xs i = map ((!) xs) [Suc i - w..<Suc i]"
  unfolding window_at_def by (rule drop_take_upt) simp

lemma map_nth_map: "b \<le> length s \<Longrightarrow> map ((!) (map f s)) [a..<b] = map (\<lambda>j. f (s ! j)) [a..<b]"
  by (rule map_cong) auto

lemma rolling_apply_nth:
  "i < length xs \<Longrightarrow>
     rolling_apply w mp f xs ! i =
       (if mp \<le> min (Suc i) w then f (window_at w xs i) else NaN)"
  by (simp add: rolling_apply_def length_window_at Let_def)

lemma length_rolling_apply [simp]: "length (rolling_apply w mp f xs) = length xs"
  by (simp add: rolling_apply_def)

lemma mean_of_Fin: "xs \<noteq> [] \<Longrightarrow> mean_of xs = Fin (sum_list xs / real (length xs))"
  by (simp add: mean_of_def)

lemma rolling_mean_None:
  "0 \<le> w \<Longrightarrow> rolling_mean w None xs = Inr (rolling_apply (nat w) (nat w) mean_of xs)"
  by (simp add: rolling_mean_def rolling_check_def)

lemma moving_average_nth:
  assumes w: "1 \<le> w" and i: "i < length s"
  shows "\<exists>ms. moving_average w s = Inr ms \<and> length ms = length s \<and>
           ms ! i = (fst (s ! i),
             if Suc i < nat w then NaN
             else Fin (sum_list (map (\<lambda>j. snd (s ! j)) [Suc i - nat w..<Suc i]) / real_of_int w))"
proof -
  let ?xs = "map snd s"
  let ?ms = "zip (map fst s) (rolling_apply (nat w) (nat w) mean_of ?xs)"
  have m: "moving_average w s = Inr ?ms"
    using w by (simp add: moving_average_def rolling_mean_None)
  have i': "i < length ?xs" using i by simp
  have win: "window_at (nat w) ?xs i = map (\<lambda>j. snd (s ! j)) [Suc i - nat w..<Suc i]"
    using i by (simp add: window_at_nth_conv [OF i'] map_nth_map del: upt_Suc)
  have len: "\<not> Suc i < nat w \<Longrightarrow> length (window_at (nat w) ?xs i) = nat w"
    using length_window_at [OF i', of "nat w"] by (simp add: min_def)
  have ne: "\<not> Suc i < nat w \<Longrightarrow> window_at (nat w) ?xs i \<noteq> []"
    using len w by (cases "window_at (nat w) ?xs i") auto
  have "?ms ! i = (fst (s ! i),
             if Suc i < nat w then NaN
             else Fin (sum_list (map (\<lambda>j. snd (s ! j)) [Suc i - nat w..<Suc i]) / real_of_int w))"
  proof (cases "Suc i < nat w")
    case True
    then show ?thesis using i by (simp add: rolling_apply_nth [OF i'])
  next
    case False
    have "rolling_apply (nat w) (nat w) mean_of ?xs ! i = mean_of (window_at (nat w) ?xs i)"
      using False by (simp add: rolling_apply_nth [OF i'] min_def)
    also have "\<dots> = Fin (sum_list (window_at (nat w) ?xs i) / real (nat w))"
      using ne [OF False] len [OF False] by (simp add: mean_of_Fin)
    finally show ?thesis using False i w by (simp add: win)
  qed
  then show ?thesis using m i by simp
qed


lemma map_fst_groupby_sum [simp]: "map fst (groupby_sum ks vs) = group_keys ks"
  by (simp add: groupby_sum_def comp_def)

lemma distinct_group_keys [simp]: "distinct (group_keys ks)"
  by (simp add: group_keys_def)

lemma length_groupby_sum [simp]: "length (groupby_sum ks vs) = length (group_keys ks)"
  by (simp add: groupby_sum_def)

lemma group_keys_Nil_iff [simp]: "group_keys ks = [] \<longleftrightarrow> ks = []"
proof -
  have "set (group_keys ks) = set ks" by (simp add: group_keys_def)
  then show ?thesis by (metis set_empty)
qed

lemma daily_spend_distinct: "daily_spend d = Inr ds \<Longrightarrow> distinct (map fst ds)"
  by (auto simp: daily_spend_def ebind_eq_Inr)



lemma rolling_mean_Some1:
  "1 \<le> w \<Longrightarrow> rolling_mean w (Some (Suc 0)) xs = Inr (rolling_apply (nat w) (Suc 0) mean_of xs)"
  by (simp add: rolling_mean_def rolling_check_Some1)

lemma rolling_std_Some1:
  "1 \<le> w \<Longrightarrow> rolling_std w (Some (Suc 0)) xs = Inr (rolling_apply (nat w) (Suc 0) std_of xs)"
  by (simp add: rolling_std_def rolling_check_Some1)

lemma anomaly_mask_invalid: "w < 1 \<Longrightarrow> \<exists>e. anomaly_mask w t xs = Inl e"
  by (simp add: anomaly_mask_def rolling_mean_def rolling_check_Some1)

lemma anomaly_mask_valid:
  assumes w: "1 \<le> w"
  shows "anomaly_mask w t xs = Inr (map (spec_anomalous (nat w) t xs) [0..<length xs])"
proof -
  let ?means = "rolling_apply (nat w) (Suc 0) mean_of xs"
  let ?stds = "rolling_apply (nat w) (Suc 0) std_of xs"
  let ?f = "\<lambda>(v, m, s). fl_gt (fl_abs (fl_sub (Fin v) m)) (fl_mul (Fin t) s)"
  have m: "anomaly_mask w t xs = Inr (map ?f (zip xs (zip ?means ?stds)))"
    using w by (simp add: anomaly_mask_def rolling_mean_Some1 rolling_std_Some1)
  have "map ?f (zip xs (zip ?means ?stds)) = map (spec_anomalous (nat w) t xs) [0..<length xs]"
  proof (rule nth_equalityI)
    show "length (map ?f (zip xs (zip ?means ?stds))) = length (map (spec_anomalous (nat w) t xs) [0..<length xs])"
      by simp
  next
    fix i assume "i < length (map ?f (zip xs (zip ?means ?stds)))"
    then have i: "i < length xs" by simp
    let ?win = "window_at (nat w) xs i"
    have win: "?win = map ((!) xs) [Suc i - nat w..<Suc i]"
      by (rule window_at_nth_conv [OF i])
    have pos: "Suc 0 \<le> min (Suc i) (nat w)" using w by simp
    have ne: "?win \<noteq> []"
      using length_window_at [OF i, of "nat w"] pos by (cases ?win) auto
    have mi: "?means ! i = Fin (sum_list ?win / real (length ?win))"
      using pos ne by (simp add: rolling_apply_nth [OF i] mean_of_Fin)
    have si: "?stds ! i = std_of ?win"
      using pos by (simp add: rolling_apply_nth [OF i])
    have "map ?f (zip xs (zip ?means ?stds)) ! i = ?f (xs ! i, ?means ! i, ?stds ! i)"
      using i by simp
    also have "\<dots> = spec_anomalous (nat w) t xs i"
    proof (cases "length ?win \<le> 1")
      case True
      then show ?thesis
        using win by (simp add: mi si std_of_def spec_anomalous_def Let_def del: upt_Suc)
    next
      case False
      then show ?thesis
        using win by (simp add: mi si std_of_def spec_anomalous_def Let_def fl_sub_def del: upt_Suc)
    qed
    finally show "map ?f (zip xs (zip ?means ?stds)) ! i = map (spec_anomalous (nat w) t xs) [0..<length xs] ! i"
      using i by simp
  qed
  then show ?thesis using m by simp
qed

lemma numeric_summable: "numeric_values col = Inr vs \<Longrightarrow> summable col = Inr col"
  by (cases col) simp_all

lemma monthly_spend_Inr:
  assumes "monthly_spend d = Inr ms"
  obtains ks col vs where "month_keys d = Inr ks" "getitem d ''Total Spend ($)'' = Inr col"
    "numeric_values col = Inr vs" "ms = groupby_sum ks vs"
  using assms by (auto simp: monthly_spend_def spend_values_def ebind_eq_Inr)

lemma seasonality_short:
  assumes ms: "monthly_spend d = Inr ms" and short: "int (length ms) < min_months_of cfg"
  shows "seasonality_body decompose cfg d =
           Inr (NoSeasonality
             ''Insufficient data for seasonal analysis (need at least {min_months} months)'')"
proof -
  from ms obtain ks col vs where k: "month_keys d = Inr ks"
    and c: "getitem d ''Total Spend ($)'' = Inr col"
    and v: "numeric_values col = Inr vs" and m: "ms = groupby_sum ks vs"
    by (rule monthly_spend_Inr)
  have "\<not> min_months_of cfg \<le> int (length (group_keys ks))"
    using short m by simp
  then show ?thesis
    by (simp add: seasonality_body_def k c numeric_summable [OF v] Let_def)
qed

lemma idxmax_nonempty: "s \<noteq> [] \<Longrightarrow> \<exists>k. idxmax s = Inr k"
proof (induction s)
  case Nil
  then show ?case by simp
next
  case (Cons p s)
  then show ?case by (cases p; cases "s = []") auto
qed

lemma idxmin_nonempty: "s \<noteq> [] \<Longrightarrow> \<exists>k. idxmin s = Inr k"
proof (induction s)
  case Nil
  then show ?case by simp
next
  case (Cons p s)
  then show ?case by (cases p; cases "s = []") auto
qed

lemma strength_undefined: "seasonal_strength_of (Fin 0) (Fin 0) = NaN"
  by (simp add: seasonal_strength_of_def)

lemma seasonality_flat:
  assumes ms: "monthly_spend d = Inr ms" and ne: "ms \<noteq> []"
    and long: "min_months_of cfg \<le> int (length ms)"
    and dc: "decompose ms 12 = Inr dc"
    and vs: "var (map Fin (seasonal dc)) = Fin 0" and vr: "var (resid dc) = Fin 0"
  shows "\<exists>p t f c. seasonality_body decompose cfg d = Inr (Seasonality NaN p t f c)"
proof -
  from ms obtain ks col vs where k: "month_keys d = Inr ks"
    and c: "getitem d ''Total Spend ($)'' = Inr col"
    and v: "numeric_values col = Inr vs" and m: "ms = groupby_sum ks vs"
    by (rule monthly_spend_Inr)
  let ?factors = "groupby_mean (map (\<lambda>k. take 2 (drop 5 k)) (map fst ms)) (seasonal dc)"
  have "ks \<noteq> []" using ne m by (auto simp: groupby_sum_def)
  then have "?factors \<noteq> []"
    using m by (simp add: groupby_mean_def)
  then obtain p t where p: "idxmax ?factors = Inr p" and t: "idxmin ?factors = Inr t"
    using idxmax_nonempty idxmin_nonempty by blast
  have l: "min_months_of cfg \<le> int (length (group_keys ks))"
    using long m by simp
  show ?thesis
    using p t dc l
    by (simp add: seasonality_body_def k c numeric_summable [OF v] v Let_def m [symmetric]
        vs vr strength_undefined)
qed



lemma getitem_map_of: "getitem d n = Inr c \<longleftrightarrow> map_of d n = Some c"
  by (simp add: getitem_def split: option.splits)




lemma moving_average_ok: "0 \<le> w \<Longrightarrow> \<exists>ms. moving_average w s = Inr ms"
  by (simp add: moving_average_def rolling_mean_None)

lemma basic_analysis_Inr:
  assumes "basic_analysis d = Inr b"
  obtains ys qs ms ma3 ma6 dow where
    "yearly_spend d = Inr ys" "quarterly_spend d = Inr qs" "monthly_spend d = Inr ms"
    "moving_average 3 ms = Inr ma3" "moving_average 6 ms = Inr ma6" "dow_stats d = Inr dow"
    "b = \<lparr>yearly_growth = map (\<lambda>(k, v). (str_int k, v)) (growth ys),
            quarterly_growth =
              map (\<lambda>((y, q), v). (str_int y @ ''-Q'' @ str_int q, v)) (growth qs),
            monthly_growth = growth ms,
            moving_average_3m = ma3,
            moving_average_6m = ma6,
            peak_months = nlargest 5 ms,
            day_of_week_stats = dow,
            raw_monthly_spend = map (\<lambda>(k, v). (k, Fin v)) ms\<rparr>"
  using assms unfolding basic_analysis_def ebind_eq_Inr by blast

lemma eta_Some:
  assumes "enhanced_time_analysis decompose s a = Some r"
  obtains b where "basic_analysis (s (df a)) = Inr b" and
    "r = basic_analysis.extend b
            (analysis_result.fields
               (calculate_trend_metrics (s (df a)))
               (detect_anomalies (config a) (s (df a)))
               (analyze_purchase_patterns (s (df a)))
               (analyze_correlations (s (df a)))
               (analyze_seasonality decompose (config a) (s (df a))))"
  using assms by (auto simp: enhanced_time_analysis_def Let_def split: sum.splits)

lemma growth_Nil [simp]: "growth [] = []"
  by (simp add: growth_def)

lemma length_shift1 [simp]: "length (shift1 xs) = length xs"
  by (cases xs) (simp_all add: shift1_def)

lemma length_pct_change [simp]: "length (pct_change xs) = length xs"
  by (simp add: pct_change_def ffill_def Let_def)

lemma length_growth [simp]: "length (growth s) = length s"
  by (simp add: growth_def)

lemma growth_eq_Nil [simp]: "growth s = [] \<longleftrightarrow> s = []"
  using length_growth [of s] by (metis length_0_conv)

lemma hd_growth: "s \<noteq> [] \<Longrightarrow> hd (growth s) = (fst (hd s), NaN)"
proof -
  assume "s \<noteq> []"
  then obtain k v s' where "s = (k, v) # s'" by (cases s) auto
  then show ?thesis using growth_Cons [of k v s'] by auto
qed

lemma basic_analysis_total:
  assumes "map_of d ''year'' = Some (IntCol ys)"
    and "map_of d ''quarter'' = Some (IntCol qs)"
    and "map_of d ''month_year'' = Some (ObjCol ms)"
    and "map_of d ''day_of_week'' = Some (ObjCol ws)"
    and "spend_values d = Inr vs"
    and "quantity_values d = Inr us"
  shows "\<exists>b. basic_analysis d = Inr b"
proof -
  obtain ma3 where m3: "moving_average 3 (groupby_sum ms vs) = Inr ma3"
    using moving_average_ok [of 3] by fastforce
  obtain ma6 where m6: "moving_average 6 (groupby_sum ms vs) = Inr ma6"
    using moving_average_ok [of 6] by fastforce
  show ?thesis
    using assms m3 m6
    by (simp add: basic_analysis_def yearly_spend_def quarterly_spend_def monthly_spend_def
        month_keys_def dow_stats_def getitem_def)
qed

lemma sample_spend: "spend_values frame_sample = Inr [1000.5, 750.25]"
  by (simp add: spend_values_def getitem_def frame_sample_def)

lemma sample_quantity: "quantity_values frame_sample = Inr [5, 3]"
  by (simp add: quantity_values_def getitem_def frame_sample_def)

lemma sample_basic: "\<exists>b. basic_analysis frame_sample = Inr b"
  by (rule basic_analysis_total [OF _ _ _ _ sample_spend sample_quantity])
    (simp_all add: frame_sample_def)

lemma sample_result:
  "\<exists>r. enhanced_time_analysis dc (\<lambda>r. frame_sample) \<lparr>df = 0, config = cfg\<rparr> = Some r"
  using sample_basic by (auto simp: enhanced_time_analysis_def)

lemma monthly_sample:
  "monthly_spend frame_sample = Inr [(''2023-01'', 1000.5), (''2023-02'', 750.25)]"
  by (simp add: monthly_spend_def month_keys_def spend_values_def getitem_def frame_sample_def
      groupby_sum_def group_keys_def group_values_def)

section \<open>Growth of the first period\<close>

text \<open>
  Claim C2. For every non-empty period-keyed spend series (yearly, quarterly, monthly) the
  growth value of the first period in the result of the analysis is \<open>NaN\<close>, the marker
  of a missing value: it is not the number 0 and not any other number. The growth series
  has one entry per period of the spend series.
\<close>

theorem first_growth_missing:
  assumes "enhanced_time_analysis decompose s a = Some r"
  shows "\<exists>ys qs ms.
           yearly_spend (s (df a)) = Inr ys \<and> quarterly_spend (s (df a)) = Inr qs \<and>
           monthly_spend (s (df a)) = Inr ms \<and>
           length (yearly_growth r) = length ys \<and>
           length (quarterly_growth r) = length qs \<and>
           length (monthly_growth r) = length ms \<and>
           (ys \<noteq> [] \<longrightarrow> hd (yearly_growth r) = (str_int (fst (hd ys)), NaN)) \<and>
           (qs \<noteq> [] \<longrightarrow>
              hd (quarterly_growth r) =
                (str_int (fst (fst (hd qs))) @ ''-Q'' @ str_int (snd (fst (hd qs))), NaN)) \<and>
           (ms \<noteq> [] \<longrightarrow> hd (monthly_growth r) = (fst (hd ms), NaN))"
proof -
  from assms obtain b where b: "basic_analysis (s (df a)) = Inr b"
    and r: "r = basic_analysis.extend b
            (analysis_result.fields
               (calculate_trend_metrics (s (df a)))
               (detect_anomalies (config a) (s (df a)))
               (analyze_purchase_patterns (s (df a)))
               (analyze_correlations (s (df a)))
               (analyze_seasonality decompose (config a) (s (df a))))"
    by (rule eta_Some)
  from b obtain ys qs ms ma3 ma6 dow where
    ys: "yearly_spend (s (df a)) = Inr ys" and qs: "quarterly_spend (s (df a)) = Inr qs"
    and ms: "monthly_spend (s (df a)) = Inr ms"
    and bd: "b = \<lparr>yearly_growth = map (\<lambda>(k, v). (str_int k, v)) (growth ys),
            quarterly_growth =
              map (\<lambda>((y, q), v). (str_int y @ ''-Q'' @ str_int q, v)) (growth qs),
            monthly_growth = growth ms,
            moving_average_3m = ma3,
            moving_average_6m = ma6,
            peak_months = nlargest 5 ms,
            day_of_week_stats = dow,
            raw_monthly_spend = map (\<lambda>(k, v). (k, Fin v)) ms\<rparr>"
    by (rule basic_analysis_Inr)
  have yg: "yearly_growth r = map (\<lambda>(k, v). (str_int k, v)) (growth ys)"
    and qg: "quarterly_growth r = map (\<lambda>((y, q), v). (str_int y @ ''-Q'' @ str_int q, v)) (growth qs)"
    and mg: "monthly_growth r = growth ms"
    by (simp_all add: r bd basic_analysis.defs analysis_result.defs)
  have "ys \<noteq> [] \<longrightarrow> hd (yearly_growth r) = (str_int (fst (hd ys)), NaN)"
    by (simp add: yg hd_map hd_growth)
  moreover have "qs \<noteq> [] \<longrightarrow> hd (quarterly_growth r) =
        (str_int (fst (fst (hd qs))) @ ''-Q'' @ str_int (snd (fst (hd qs))), NaN)"
    by (simp add: qg hd_map hd_growth split_beta)
  moreover have "ms \<noteq> [] \<longrightarrow> hd (monthly_growth r) = (fst (hd ms), NaN)"
    by (simp add: mg hd_growth)
  ultimately show ?thesis
    using ys qs ms by (simp add: yg qg mg)
qed

theorem first_growth_missing_witness:
  "\<exists>r. enhanced_time_analysis refusing_decompose (\<lambda>r. frame_sample) \<lparr>df = 0, config = None\<rparr> = Some r \<and>
       hd (monthly_growth r) = (''2023-01'', NaN) \<and> length (monthly_growth r) = 2 \<and>
       snd (hd (yearly_growth r)) = NaN \<and> snd (hd (quarterly_growth r)) = NaN"
proof -
  obtain r where r: "enhanced_time_analysis refusing_decompose (\<lambda>r. frame_sample) \<lparr>df = 0, config = None\<rparr> = Some r"
    using sample_result by blast
  have ys: "yearly_spend frame_sample \<noteq> Inr []" and qs: "quarterly_spend frame_sample \<noteq> Inr []"
    by (simp_all add: yearly_spend_def quarterly_spend_def spend_values_def getitem_def
        frame_sample_def groupby_sum_def)
  show ?thesis
    using first_growth_missing [OF r] r monthly_sample ys qs by auto
qed

section \<open>Moving averages\<close>

text \<open>
  Claim C6. The moving averages of the monthly spend series use windows of 3 and of 6
  months. For a window of size \<open>w\<close> the value at each of the first \<open>w - 1\<close> months is
  \<open>NaN\<close> (no partial window, no fill), and from the \<open>w\<close>-th month on it is the mean
  of the last \<open>w\<close> months.
\<close>

theorem moving_average_gating:
  assumes "enhanced_time_analysis decompose s a = Some r"
  shows "\<exists>ms. monthly_spend (s (df a)) = Inr ms \<and>
           length (moving_average_3m r) = length ms \<and>
           length (moving_average_6m r) = length ms \<and>
           (\<forall>i<length ms.
              moving_average_3m r ! i =
                (fst (ms ! i),
                 if i < 2 then NaN
                 else Fin (sum_list (map (\<lambda>j. snd (ms ! j)) [i - 2..<i + 1]) / 3)) \<and>
              moving_average_6m r ! i =
                (fst (ms ! i),
                 if i < 5 then NaN
                 else Fin (sum_list (map (\<lambda>j. snd (ms ! j)) [i - 5..<i + 1]) / 6)))"
proof -
  from assms obtain b where b: "basic_analysis (s (df a)) = Inr b"
    and r: "r = basic_analysis.extend b
            (analysis_result.fields
               (calculate_trend_metrics (s (df a)))
               (detect_anomalies (config a) (s (df a)))
               (analyze_purchase_patterns (s (df a)))
               (analyze_correlations (s (df a)))
               (analyze_seasonality decompose (config a) (s (df a))))"
    by (rule eta_Some)
  from b obtain ys qs ms ma3 ma6 dow where
    ms: "monthly_spend (s (df a)) = Inr ms"
    and m3: "moving_average 3 ms = Inr ma3" and m6: "moving_average 6 ms = Inr ma6"
    and bd: "b = \<lparr>yearly_growth = map (\<lambda>(k, v). (str_int k, v)) (growth ys),
            quarterly_growth =
              map (\<lambda>((y, q), v). (str_int y @ ''-Q'' @ str_int q, v)) (growth qs),
            monthly_growth = growth ms,
            moving_average_3m = ma3,
            moving_average_6m = ma6,
            peak_months = nlargest 5 ms,
            day_of_week_stats = dow,
            raw_monthly_spend = map (\<lambda>(k, v). (k, Fin v)) ms\<rparr>"
    by (rule basic_analysis_Inr)
  have r3: "moving_average_3m r = ma3" and r6: "moving_average_6m r = ma6"
    by (simp_all add: r bd basic_analysis.defs analysis_result.defs)
  have l3: "length ma3 = length ms"
    using m3 by (auto simp: moving_average_def rolling_mean_None)
  have l6: "length ma6 = length ms"
    using m6 by (auto simp: moving_average_def rolling_mean_None)
  have "ma3 ! i = (fst (ms ! i),
                 if i < 2 then NaN
                 else Fin (sum_list (map (\<lambda>j. snd (ms ! j)) [i - 2..<i + 1]) / 3))
      \<and> ma6 ! i = (fst (ms ! i),
                 if i < 5 then NaN
                 else Fin (sum_list (map (\<lambda>j. snd (ms ! j)) [i - 5..<i + 1]) / 6))"
    if i: "i < length ms" for i
  proof -
    have e3: "Suc i < nat 3 \<longleftrightarrow> i < 2" and e6: "Suc i < nat 6 \<longleftrightarrow> i < 5" by auto
    have s3: "Suc i - nat 3 = i - 2" and s6: "Suc i - nat 6 = i - 5" by auto
    show ?thesis
      using moving_average_nth [of 3 i ms] moving_average_nth [of 6 i ms] i m3 m6
      unfolding e3 e6 s3 s6 by (auto simp del: upt_Suc)
  qed
  then show ?thesis using ms l3 l6 by (simp add: r3 r6)
qed

theorem moving_average_gating_witness:
  "\<exists>r. enhanced_time_analysis refusing_decompose (\<lambda>r. frame_sample) \<lparr>df = 0, config = None\<rparr> = Some r \<and>
       moving_average_3m r = [(''2023-01'', NaN), (''2023-02'', NaN)] \<and>
       moving_average_6m r = [(''2023-01'', NaN), (''2023-02'', NaN)]"
proof -
  obtain r where r: "enhanced_time_analysis refusing_decompose (\<lambda>r. frame_sample) \<lparr>df = 0, config = None\<rparr> = Some r"
    using sample_result by blast
  from moving_average_gating [OF r] monthly_sample
  have l3: "length (moving_average_3m r) = 2" and l6: "length (moving_average_6m r) = 2"
    and n: "\<forall>i<2. moving_average_3m r ! i = (fst ([(''2023-01'', 1000.5), (''2023-02'', 750.25 :: real)] ! i), NaN) \<and>
        moving_average_6m r ! i = (fst ([(''2023-01'', 1000.5), (''2023-02'', 750.25 :: real)] ! i), NaN)"
    by auto
  have "moving_average_3m r = [(''2023-01'', NaN), (''2023-02'', NaN)]"
    using l3 n by (intro nth_equalityI) (auto simp: less_Suc_eq numeral_2_eq_2)
  moreover have "moving_average_6m r = [(''2023-01'', NaN), (''2023-02'', NaN)]"
    using l6 n by (intro nth_equalityI) (auto simp: less_Suc_eq numeral_2_eq_2)
  ultimately show ?thesis using r by blast
qed

lemma filter_zip_flags:
  "map fst (filter snd (zip ds (map P [0..<length ds]))) = map ((!) ds) (filter P [0..<length ds])"
proof (induction ds rule: rev_induct)
  case Nil
  then show ?case by simp
next
  case (snoc x xs)
  have z: "zip (xs @ [x]) (map P [0..<length xs] @ [P (length xs)]) =
             zip xs (map P [0..<length xs]) @ [(x, P (length xs))]"
    by simp
  have m: "map ((!) (xs @ [x])) (filter P [0..<length xs]) = map ((!) xs) (filter P [0..<length xs])"
    by (rule map_cong) (auto simp: nth_append)
  show ?case
    using snoc.IH by (simp add: z m)
qed

lemma filter_zip_flags_map:
  "map (f \<circ> fst) (filter snd (zip ds (map P [0..<length ds]))) =
     map (f \<circ> (!) ds) (filter P [0..<length ds])"
  using arg_cong [OF filter_zip_flags, of "map f" ds P] by simp

lemma filter_zip_flags_length:
  "length (filter snd (zip ds (map P [0..<length ds]))) = length (filter P [0..<length ds])"
  using arg_cong [OF filter_zip_flags, of length ds P] by simp

lemma distinct_fst_nth:
  "distinct (map fst xs) \<Longrightarrow> i < length xs \<Longrightarrow> j < length xs \<Longrightarrow>
     fst (xs ! i) = fst (xs ! j) \<Longrightarrow> i = j"
  by (metis distinct_conv_nth length_map nth_map)

lemma detect_anomalies_valid:
  assumes ds: "daily_spend d = Inr ds" and w: "1 \<le> window_of cfg"
  shows "detect_anomalies cfg d =
     (let found = map ((!) ds)
            (filter (spec_anomalous (nat (window_of cfg)) (threshold_of cfg) (map snd ds))
               [0..<length ds])
      in \<lparr>anomalies = map (\<lambda>(k, v). (k, Fin v)) found,
           anomaly_dates = map (\<lambda>(k, v). strftime_Ymd k) found,
           total_anomalies = length found\<rparr>)"
proof -
  have "anomaly_mask (window_of cfg) (threshold_of cfg) (map snd ds) =
          Inr (map (spec_anomalous (nat (window_of cfg)) (threshold_of cfg) (map snd ds))
                 [0..<length ds])"
    using anomaly_mask_valid [OF w, of "threshold_of cfg" "map snd ds"] by simp
  then show ?thesis
    by (simp add: detect_anomalies_def anomaly_body_def ds Let_def filter_zip_flags_map
        filter_zip_flags_length)
qed

lemma detect_anomalies_invalid:
  assumes "window_of cfg < 1"
  shows "detect_anomalies cfg d = anomaly_fallback"
proof (cases "daily_spend d")
  case (Inl e)
  then show ?thesis by (simp add: detect_anomalies_def anomaly_body_def)
next
  case (Inr ds)
  obtain e where "anomaly_mask (window_of cfg) (threshold_of cfg) (map snd ds) = Inl e"
    using anomaly_mask_invalid [OF assms] by blast
  then show ?thesis by (simp add: detect_anomalies_def anomaly_body_def Inr Let_def)
qed



lemma spec_anomalous_first: "\<not> spec_anomalous w t xs 0"
  by (simp add: spec_anomalous_def)

lemma rolling_std_first:
  assumes "1 \<le> w"
  shows "\<exists>stds. rolling_std w (Some 1) (x # xs) = Inr (NaN # stds)"
proof -
  let ?r = "rolling_apply (nat w) (Suc 0) std_of (x # xs)"
  have "window_at (nat w) (x # xs) 0 = [x]"
    using assms by (simp add: window_at_def)
  then have "?r ! 0 = NaN"
    using assms by (simp add: rolling_apply_nth std_of_def)
  moreover have "length ?r = Suc (length xs)" by simp
  ultimately obtain stds where "?r = NaN # stds"
    by (cases ?r) auto
  then show ?thesis
    using assms rolling_std_Some1 [of w "x # xs"] by simp
qed

lemma daily_week:
  "daily_spend frame_week =
     Inr [((2023, 1, 1, 0), 10), ((2023, 1, 2, 0), 10), ((2023, 1, 3, 0), 10),
          ((2023, 1, 4, 0), 10), ((2023, 1, 5, 0), 10), ((2023, 1, 6, 0), 10),
          ((2023, 1, 7, 0), 100)]"
  by (simp add: daily_spend_def spend_values_def getitem_def frame_week_def
      groupby_sum_def group_keys_def group_values_def)



section \<open>Anomaly detection\<close>



text \<open>
  Claim C10. The first day of the daily spend series is never reported as an anomaly,
  whatever its value, the window and the threshold are: the rolling standard deviation
  of the first day is taken over a single observation and is \<open>NaN\<close>, and a comparison
  with \<open>NaN\<close> is false.
\<close>

theorem first_day_never_flagged:
  assumes "daily_spend d = Inr (p # ds)"
  shows "fst p \<notin> fst ` set (anomalies (detect_anomalies cfg d)) \<and>
         (1 \<le> window_of cfg \<longrightarrow>
            (\<exists>stds. rolling_std (window_of cfg) (Some 1) (map snd (p # ds)) = Inr (NaN # stds)))"
proof
  show "fst p \<notin> fst ` set (anomalies (detect_anomalies cfg d))"
  proof (cases "1 \<le> window_of cfg")
    case True
    let ?P = "spec_anomalous (nat (window_of cfg)) (threshold_of cfg) (map snd (p # ds))"
    have dist: "distinct (map fst (p # ds))" by (rule daily_spend_distinct [OF assms])
    have a: "anomalies (detect_anomalies cfg d) =
          map (\<lambda>i. (fst ((p # ds) ! i), Fin (snd ((p # ds) ! i)))) (filter ?P [0..<length (p # ds)])"
      by (simp add: detect_anomalies_valid [OF assms True] Let_def split_beta comp_def
          del: upt_Suc)
    show ?thesis
    proof
      assume "fst p \<in> fst ` set (anomalies (detect_anomalies cfg d))"
      then obtain i where i: "i < length (p # ds)" and f: "?P i" and k: "fst ((p # ds) ! i) = fst p"
        unfolding a by (auto simp del: upt_Suc)
      have "i = 0"
        using distinct_fst_nth [OF dist i, of 0] k by simp
      then show False using f spec_anomalous_first by simp
    qed
  next
    case False
    then show ?thesis by (simp add: detect_anomalies_invalid anomaly_fallback_def)
  qed
next
  show "1 \<le> window_of cfg \<longrightarrow>
          (\<exists>stds. rolling_std (window_of cfg) (Some 1) (map snd (p # ds)) = Inr (NaN # stds))"
    using rolling_std_first [of "window_of cfg" "snd p" "map snd ds"] by simp
qed

theorem first_day_never_flagged_witness:
  "(2023, 1, 1, 0) \<notin> fst ` set (anomalies (detect_anomalies None frame_week)) \<and>
   (\<exists>stds. rolling_std 7 (Some 1) [10, 10, 10, 10, 10, 10, 100] = Inr (NaN # stds))"
  using first_day_never_flagged [OF daily_week, of None]
  by (simp add: window_of_def)

section \<open>Seasonality\<close>

text \<open>
  Claim C4. When the monthly spend series has fewer months than
  \<open>min_months_for_seasonality\<close> (12 without a configuration), the body of
  \<^verbatim>\<open>analyze_seasonality\<close> returns normally, not through its exception handler, a result
  with \<open>has_seasonality\<close> false and a message. The result is the same for every
  decomposer, so the decomposition is not invoked.
\<close>

theorem seasonality_gating:
  assumes "monthly_spend d = Inr ms" and "int (length ms) < min_months_of cfg"
  shows "seasonality_body decompose cfg d =
           Inr (NoSeasonality
             ''Insufficient data for seasonal analysis (need at least {min_months} months)'') \<and>
         analyze_seasonality decompose cfg d =
           NoSeasonality
             ''Insufficient data for seasonal analysis (need at least {min_months} months)'' \<and>
         \<not> has_seasonality (analyze_seasonality decompose cfg d) \<and>
         (\<forall>decompose'. analyze_seasonality decompose' cfg d = analyze_seasonality decompose cfg d)"
  using seasonality_short [OF assms]
  by (simp add: analyze_seasonality_def)

theorem seasonality_gating_witness:
  "analyze_seasonality flat_decompose None frame_sample =
     NoSeasonality
       ''Insufficient data for seasonal analysis (need at least {min_months} months)'' \<and>
   analyze_seasonality refusing_decompose None frame_sample =
     analyze_seasonality flat_decompose None frame_sample"
proof -
  have "int (length [(''2023-01'', 1000.5), (''2023-02'', 750.25 :: real)]) < min_months_of None"
    by (simp add: min_months_of_def)
  from seasonality_gating [OF monthly_sample this, of flat_decompose]
  have a: "analyze_seasonality flat_decompose None frame_sample =
      NoSeasonality
        ''Insufficient data for seasonal analysis (need at least {min_months} months)''"
    and b: "\<forall>decompose'. analyze_seasonality decompose' None frame_sample =
      analyze_seasonality flat_decompose None frame_sample"
    by blast+
  show ?thesis using a b [rule_format, of refusing_decompose] by simp
qed

text \<open>
  Claim C8, as the code has it. When the seasonal and the residual component both have
  zero variance, the strength \<open>var(seasonal) / (var(seasonal) + var(residual)) * 100\<close>
  is \<open>0 / 0\<close>, which is \<open>NaN\<close>: no error is raised, the analysis reports
  \<open>has_seasonality\<close> true, and the reported strength is \<open>NaN\<close>, not 0.
\<close>

theorem zero_variance_strength:
  assumes "monthly_spend d = Inr ms" and "ms \<noteq> []"
    and "min_months_of cfg \<le> int (length ms)"
    and "decompose ms 12 = Inr dc"
    and "var (map Fin (seasonal dc)) = Fin 0" and "var (resid dc) = Fin 0"
  shows "seasonal_strength_of (var (map Fin (seasonal dc))) (var (resid dc)) = NaN \<and>
         (\<exists>p t f c. analyze_seasonality decompose cfg d = Seasonality NaN p t f c) \<and>
         has_seasonality (analyze_seasonality decompose cfg d)"
proof -
  obtain p t f c where "seasonality_body decompose cfg d = Inr (Seasonality NaN p t f c)"
    using seasonality_flat [of d ms cfg decompose dc] assms by blast
  then have "analyze_seasonality decompose cfg d = Seasonality NaN p t f c"
    by (simp add: analyze_seasonality_def)
  then show ?thesis
    using assms(5,6) by (simp add: strength_undefined)
qed

theorem zero_variance_strength_witness:
  "seasonal_strength (analyze_seasonality flat_decompose (Some settings_two_months) frame_sample) = NaN \<and>
   has_seasonality (analyze_seasonality flat_decompose (Some settings_two_months) frame_sample)"
proof -
  let ?ms = "[(''2023-01'', 1000.5), (''2023-02'', 750.25 :: real)]"
  let ?dc = "\<lparr>seasonal = [0, 0], trend = [Fin 1000.5, Fin 750.25], resid = [Fin 0, Fin 0]\<rparr>"
  have ne: "?ms \<noteq> []" by simp
  have m: "min_months_of (Some settings_two_months) \<le> int (length ?ms)"
    by (simp add: min_months_of_def settings_two_months_def)
  have dc: "flat_decompose ?ms 12 = Inr ?dc"
    by (simp add: flat_decompose_def)
  have vs: "var (map Fin (seasonal ?dc)) = Fin 0" and vr: "var (resid ?dc) = Fin 0"
    by (simp_all add: var_def sample_var_def)
  from zero_variance_strength [of frame_sample ?ms "Some settings_two_months" flat_decompose ?dc]
    monthly_sample ne m dc vs vr
  show ?thesis by auto
qed

theorem zero_variance_strength_counterexample:
  "var (map Fin [0, 0, 0]) = Fin 0 \<and> var [NaN, Fin 0, Fin 0, NaN] = Fin 0 \<and>
   seasonal_strength_of (var (map Fin [0, 0, 0])) (var [NaN, Fin 0, Fin 0, NaN]) \<noteq> Fin 0"
  by (simp add: var_def sample_var_def seasonal_strength_of_def)








section \<open>Correlations\<close>











section \<open>The caller's data frame\<close>




lemma message_names_all:
  "contains missing_columns_message ''transaction_date''"
  "contains missing_columns_message ''Total Spend ($)''"
  "contains missing_columns_message ''Quantity Purchased''"
  by (simp_all add: missing_columns_message_def)

lemma main_upload_missing:
  assumes "\<not> list_all (\<lambda>col. col \<in> set (columns d)) required_columns"
  shows "main_upload to_datetime decompose cfg d = MissingColumns missing_columns_message"
  using assms by (simp add: main_upload_def)

lemma no_quantity_missing:
  "\<not> list_all (\<lambda>col. col \<in> set (columns csv_no_quantity)) required_columns"
  by (simp add: required_columns_def columns_def csv_no_quantity_def)

section \<open>Missing required columns\<close>

text \<open>
  Claim C9, as the code has it. When the uploaded frame lacks one or more of the required
  columns, the entry point stops before the analyzer is built: for every date parser and
  every decomposer the outcome is the same error message and no result. The message is a
  fixed text that names all three required columns, whichever of them are missing; no
  exception is raised.
\<close>

theorem missing_columns_outcome:
  assumes "\<not> list_all (\<lambda>col. col \<in> set (columns d)) required_columns"
  shows "main_upload to_datetime decompose cfg d = MissingColumns missing_columns_message \<and>
         list_all (contains missing_columns_message) required_columns"
  using main_upload_missing [OF assms] message_names_all
  by (simp add: required_columns_def)

theorem missing_columns_outcome_witness:
  "main_upload to_datetime_iso refusing_decompose default_settings csv_no_quantity =
     MissingColumns missing_columns_message"
  using missing_columns_outcome [OF no_quantity_missing] by simp

theorem missing_columns_listed_counterexample:
  "main_upload to_datetime_iso refusing_decompose default_settings csv_no_quantity =
     MissingColumns missing_columns_message \<and>
   contains missing_columns_message ''transaction_date'' \<and>
   ''transaction_date'' \<in> set (columns csv_no_quantity)"
  using main_upload_missing [OF no_quantity_missing] message_names_all(1)
  by (simp add: columns_def csv_no_quantity_def)





section \<open>Fault isolation\<close>




end
